theory Spec2Isabelle
  imports Main
begin

section \<open>The PBIL helper interface, \<^verbatim>\<open>c_src/helper_pbil.h\<close>\<close>

text \<open>
  The repository's only source file is a C header. It defines no function, so there is
  no computation to translate: what the file fixes is an interface, that is a list of
  preprocessor directives, comments and function prototypes. The header is therefore
  modelled twice, and the two models are proved to agree:
  \<^item> \<open>helper_pbil_h_lines\<close> is the file as it is stored, line by line;
  \<^item> \<open>helper_pbil_h\<close> is the same file as a list of top-level items, each prototype
    with its return type, its name and its typed parameters.
  Printing the items gives back the stored lines, character for character
  (\<open>render_helper_pbil_h\<close>), so every statement about the items is a statement about
  the file.
\<close>

subsection \<open>C types, parameters and prototypes\<close>

text \<open>
  The types the header writes: \<^verbatim>\<open>int\<close>, \<^verbatim>\<open>double\<close>, a type known by name only
  (\<^verbatim>\<open>problem\<close>) and pointers to those (\<^verbatim>\<open>int*\<close>, \<^verbatim>\<open>int**\<close>, \<^verbatim>\<open>double*\<close>,
  \<^verbatim>\<open>problem*\<close>).
\<close>

datatype ctype = TInt | TDouble | TNamed string | TPtr ctype

datatype param = Param (ptype: ctype) (pname: string)

datatype prototype = Prototype (ret: ctype) (fname: string) (params: "param list")

subsection \<open>Top-level items of a C source file\<close>

text \<open>
  A line of the header is a directive, a comment, a blank line or a prototype. A C file
  may also hold function definitions (a signature with a body) and type definitions;
  the two constructors \<open>FunDef\<close> and \<open>Typedef\<close> stand for those, so that their
  absence from the header is a fact about the header and not about the type.
  \<open>Endif\<close> carries the text that follows the directive on its line.
\<close>

datatype item =
    Ifndef string
  | Define string
  | Include string
  | Endif string
  | Comment string
  | Blank
  | Proto prototype
  | FunDef prototype string
  | Typedef string string

subsection \<open>The header, item by item\<close>

definition generate_population :: prototype where
  "generate_population = Prototype (TPtr (TPtr TInt)) ''generate_population''
     [Param (TPtr (TPtr TInt)) ''current_population'',
      Param (TPtr TDouble) ''prob_vector'',
      Param TInt ''pop_size'',
      Param TInt ''length'']"

definition update_prob_vector :: prototype where
  "update_prob_vector = Prototype (TPtr TDouble) ''update_prob_vector''
     [Param (TPtr TDouble) ''prob_vector'',
      Param TInt ''length'',
      Param (TPtr TInt) ''best_vector'',
      Param (TPtr TInt) ''worst_vector'',
      Param TDouble ''lr'',
      Param TDouble ''negative_lr'']"

definition findBest :: prototype where
  "findBest = Prototype (TPtr TInt) ''findBest''
     [Param (TPtr (TPtr TInt)) ''current_population'',
      Param TInt ''pop_size'',
      Param TInt ''length'',
      Param (TPtr (TNamed ''problem'')) ''prob'']"

definition findWorst :: prototype where
  "findWorst = Prototype (TPtr TInt) ''findWorst''
     [Param (TPtr (TPtr TInt)) ''current_population'',
      Param TInt ''pop_size'',
      Param TInt ''length'',
      Param TInt ''max_fitness'',
      Param (TPtr (TNamed ''problem'')) ''prob'']"

definition mutate :: prototype where
  "mutate = Prototype (TPtr TDouble) ''mutate''
     [Param (TPtr TDouble) ''prob_vector'',
      Param TDouble ''mut_probability'',
      Param TDouble ''mut_shift'']"

definition helper_pbil_h :: "item list" where
  "helper_pbil_h =
    [Ifndef ''HELPER_PBIL_H'',
     Define ''HELPER_PBIL_H'',
     Blank,
     Include ''datatypes.h'',
     Blank,
     Comment '' Function declarations for PBIL helper functions'',
     Blank,
     Comment '' Generate population from probability vector'',
     Proto generate_population,
     Blank,
     Comment '' Update probability vector based on best and worst individuals'',
     Proto update_prob_vector,
     Blank,
     Comment '' Find best individual in population'',
     Proto findBest,
     Blank,
     Comment '' Find worst individual in population'',
     Proto findWorst,
     Blank,
     Comment '' Mutate probability vector'',
     Proto mutate,
     Blank,
     Endif '' '']"

subsection \<open>The header, as stored\<close>

text \<open>
  The 23 segments of the file between its line feeds. The file is these segments joined
  by single line feeds: the last segment, \<^verbatim>\<open>#endif\<close> and one blank, has no line feed
  after it.
\<close>

definition helper_pbil_h_lines :: "string list" where
  \<open>helper_pbil_h_lines =
    [''#ifndef HELPER_PBIL_H'',
     ''#define HELPER_PBIL_H'',
     '''',
     ''#include "datatypes.h"'',
     '''',
     ''// Function declarations for PBIL helper functions'',
     '''',
     ''// Generate population from probability vector'',
     ''int** generate_population(int** current_population, double* prob_vector, int pop_size, int length);'',
     '''',
     ''// Update probability vector based on best and worst individuals'',
     ''double* update_prob_vector(double* prob_vector, int length, int* best_vector, int* worst_vector, double lr, double negative_lr);'',
     '''',
     ''// Find best individual in population'',
     ''int* findBest(int** current_population, int pop_size, int length, problem* prob);'',
     '''',
     ''// Find worst individual in population'',
     ''int* findWorst(int** current_population, int pop_size, int length, int max_fitness, problem* prob);'',
     '''',
     ''// Mutate probability vector'',
     ''double* mutate(double* prob_vector, double mut_probability, double mut_shift);'',
     '''',
     ''#endif '']\<close>

definition line_feed :: char where
  "line_feed = CHR 0x0A"

fun join_lines :: "string list \<Rightarrow> string" where
  "join_lines [] = []"
| "join_lines [l] = l"
| "join_lines (l # m # ls) = l @ line_feed # join_lines (m # ls)"

definition helper_pbil_h_text :: string where
  "helper_pbil_h_text = join_lines helper_pbil_h_lines"

text \<open>
  The lines of a text, as POSIX and \<^verbatim>\<open>wc -l\<close> count them: a line is a run of characters
  other than the line feed together with the line feed that ends it. Characters after
  the last line feed belong to no line. \<open>lines_from acc\<close> reads on with the characters
  \<open>acc\<close> of the current line already seen, latest first.
\<close>

fun lines_from :: "string \<Rightarrow> string \<Rightarrow> string list" where
  "lines_from acc [] = []"
| "lines_from acc (c # cs) =
     (if c = line_feed then rev acc # lines_from [] cs else lines_from (c # acc) cs)"

definition terminated_lines :: "string \<Rightarrow> string list" where
  "terminated_lines s = lines_from [] s"

subsection \<open>Printing items\<close>

fun render_ctype :: "ctype \<Rightarrow> string" where
  "render_ctype TInt = ''int''"
| "render_ctype TDouble = ''double''"
| "render_ctype (TNamed n) = n"
| "render_ctype (TPtr t) = render_ctype t @ ''*''"

fun render_param :: "param \<Rightarrow> string" where
  "render_param (Param t n) = render_ctype t @ '' '' @ n"

fun commas :: "string list \<Rightarrow> string" where
  "commas [] = []"
| "commas [x] = x"
| "commas (x # y # ys) = x @ '', '' @ commas (y # ys)"

fun render_signature :: "prototype \<Rightarrow> string" where
  "render_signature (Prototype r f ps) =
     render_ctype r @ '' '' @ f @ ''('' @ commas (map render_param ps) @ '')''"

fun render_item :: "item \<Rightarrow> string" where
  "render_item (Ifndef m) = ''#ifndef '' @ m"
| "render_item (Define m) = ''#define '' @ m"
| "render_item (Include f) = ''#include '' @ CHR 0x22 # f @ [CHR 0x22]"
| "render_item (Endif rest) = ''#endif'' @ rest"
| "render_item (Comment c) = ''//'' @ c"
| "render_item Blank = []"
| "render_item (Proto p) = render_signature p @ '';''"
| "render_item (FunDef p body) = render_signature p @ '' {'' @ body @ ''}''"
| "render_item (Typedef n body) = ''typedef '' @ body @ '' '' @ n @ '';''"

subsection \<open>Reading the interface off the items\<close>

text \<open>The prototypes among a file's items, in the order of the file.\<close>

fun prototypes :: "item list \<Rightarrow> prototype list" where
  "prototypes [] = []"
| "prototypes (Proto p # items) = p # prototypes items"
| "prototypes (i # items) = prototypes items"

text \<open>The prototypes a file declares under a given name.\<close>

definition declared :: "item list \<Rightarrow> string \<Rightarrow> prototype list" where
  "declared items n = filter (\<lambda>p. fname p = n) (prototypes items)"

text \<open>The type a prototype gives to the parameter of a given name, if it has one.\<close>

definition param_type :: "prototype \<Rightarrow> string \<Rightarrow> ctype option" where
  "param_type p n = map_of (map (\<lambda>q. (pname q, ptype q)) (params p)) n"

text \<open>All parameters of all prototypes of a file, and all types its prototypes write
  (return types and parameter types).\<close>

definition all_params :: "item list \<Rightarrow> param list" where
  "all_params items = concat (map params (prototypes items))"

definition types_of :: "prototype \<Rightarrow> ctype list" where
  "types_of p = ret p # map ptype (params p)"

definition interface_types :: "item list \<Rightarrow> ctype list" where
  "interface_types items = concat (map types_of (prototypes items))"

text \<open>The types given to the parameters of one name, and the names given to the
  parameters of one type, over the whole file.\<close>

definition types_named :: "item list \<Rightarrow> string \<Rightarrow> ctype list" where
  "types_named items n = map ptype (filter (\<lambda>q. pname q = n) (all_params items))"

definition names_typed :: "item list \<Rightarrow> ctype \<Rightarrow> string list" where
  "names_typed items t = map pname (filter (\<lambda>q. ptype q = t) (all_params items))"

fun is_pointer :: "ctype \<Rightarrow> bool" where
  "is_pointer (TPtr t) = True"
| "is_pointer t = False"

text \<open>The named (neither \<^verbatim>\<open>int\<close> nor \<^verbatim>\<open>double\<close>) type a type is built from.\<close>

fun named_types :: "ctype \<Rightarrow> string list" where
  "named_types TInt = []"
| "named_types TDouble = []"
| "named_types (TNamed n) = [n]"
| "named_types (TPtr t) = named_types t"

definition uses_type :: "string \<Rightarrow> prototype \<Rightarrow> bool" where
  "uses_type n p = (n \<in> set (concat (map named_types (types_of p))))"

text \<open>Items that define something: a function with its body, or a type.\<close>

fun is_definition :: "item \<Rightarrow> bool" where
  "is_definition (FunDef p body) = True"
| "is_definition (Typedef n body) = True"
| "is_definition i = False"

fun defines_type :: "string \<Rightarrow> item \<Rightarrow> bool" where
  "defines_type n (Typedef m body) = (m = n)"
| "defines_type n i = False"

fun included_files :: "item list \<Rightarrow> string list" where
  "included_files [] = []"
| "included_files (Include f # items) = f # included_files items"
| "included_files (i # items) = included_files items"

text \<open>The source files of the repository, by their paths: the header is the only one.\<close>

definition repository :: "(string \<times> item list) list" where
  "repository = [(''c_src/helper_pbil.h'', helper_pbil_h)]"

subsection \<open>Preprocessing\<close>









section \<open>The two models agree\<close>

lemmas prototype_defs =
  generate_population_def update_prob_vector_def findBest_def findWorst_def mutate_def

lemma render_helper_pbil_h: "map render_item helper_pbil_h = helper_pbil_h_lines"
  by (simp add: helper_pbil_h_def helper_pbil_h_lines_def prototype_defs)

lemma render_helper_pbil_h_text:
  "join_lines (map render_item helper_pbil_h) = helper_pbil_h_text"
  by (simp only: render_helper_pbil_h helper_pbil_h_text_def)

text \<open>A function definition cannot be printed without a brace.\<close>

lemma fundef_has_brace: "CHR ''{'' \<in> set (render_item (FunDef p body))"
  by (cases p) simp

text \<open>Joining puts one line feed between two lines and adds no other character; the
  lines of the joined text are the joined lines but the last, which no line feed ends.\<close>

lemma lines_from_feed:
  "line_feed \<notin> set l \<Longrightarrow>
     lines_from acc (l @ line_feed # rest) = (rev acc @ l) # lines_from [] rest"
  by (induction l arbitrary: acc) auto

lemma lines_from_unterminated: "line_feed \<notin> set l \<Longrightarrow> lines_from acc l = []"
  by (induction l arbitrary: acc) auto

lemma length_lines_from: "length (lines_from acc s) = count_list s line_feed"
  by (induction s arbitrary: acc) auto

lemma terminated_join_lines:
  "list_all (\<lambda>l. line_feed \<notin> set l) ls \<Longrightarrow> terminated_lines (join_lines ls) = butlast ls"
  unfolding terminated_lines_def
  by (induction ls rule: join_lines.induct)
    (auto simp: lines_from_feed lines_from_unterminated)

lemma count_join_lines:
  "list_all (\<lambda>l. line_feed \<notin> set l) ls \<Longrightarrow>
     count_list (join_lines ls) line_feed = length ls - 1"
  by (induction ls rule: join_lines.induct) (auto simp: count_list_0_iff)

lemma set_join_lines:
  "c \<noteq> line_feed \<Longrightarrow> c \<in> set (join_lines ls) \<longleftrightarrow> c \<in> set (concat ls)"
  by (induction ls rule: join_lines.induct) auto

lemma join_lines_not_empty: "ls \<noteq> [] \<Longrightarrow> last ls \<noteq> [] \<Longrightarrow> join_lines ls \<noteq> []"
  by (induction ls rule: join_lines.induct) auto

lemma last_join_lines:
  "ls \<noteq> [] \<Longrightarrow> last ls \<noteq> [] \<Longrightarrow> last (join_lines ls) = last (last ls)"
  by (induction ls rule: join_lines.induct) (auto simp: join_lines_not_empty)

lemma no_feed_in_lines: "list_all (\<lambda>l. line_feed \<notin> set l) helper_pbil_h_lines"
  by (simp add: helper_pbil_h_lines_def line_feed_def)

lemma terminated_lines_helper_pbil_h_text:
  "terminated_lines helper_pbil_h_text = butlast helper_pbil_h_lines"
  unfolding helper_pbil_h_text_def
  by (rule terminated_join_lines [OF no_feed_in_lines])

lemma feeds_helper_pbil_h_text: "count_list helper_pbil_h_text line_feed = 22"
  unfolding helper_pbil_h_text_def
  by (simp add: count_join_lines [OF no_feed_in_lines]) (simp add: helper_pbil_h_lines_def)

lemma last_helper_pbil_h_text: "last helper_pbil_h_text = CHR '' ''"
  unfolding helper_pbil_h_text_def
  by (subst last_join_lines) (simp_all add: helper_pbil_h_lines_def)

lemma no_brace_in_helper_pbil_h_text:
  "CHR ''{'' \<notin> set helper_pbil_h_text \<and> CHR ''}'' \<notin> set helper_pbil_h_text"
  by (simp add: helper_pbil_h_text_def set_join_lines line_feed_def)
    (simp add: helper_pbil_h_lines_def)

lemma prototypes_helper_pbil_h:
  "prototypes helper_pbil_h =
     [generate_population, update_prob_vector, findBest, findWorst, mutate]"
  by (simp add: helper_pbil_h_def)

lemma all_params_helper_pbil_h:
  "all_params helper_pbil_h =
     params generate_population @ params update_prob_vector @ params findBest
     @ params findWorst @ params mutate"
  by (simp add: all_params_def prototypes_helper_pbil_h)

lemma interface_types_helper_pbil_h:
  "interface_types helper_pbil_h =
     types_of generate_population @ types_of update_prob_vector @ types_of findBest
     @ types_of findWorst @ types_of mutate"
  by (simp add: interface_types_def prototypes_helper_pbil_h)

lemma no_definition_in_helper_pbil_h: "filter is_definition helper_pbil_h = []"
  by (simp add: helper_pbil_h_def)

section \<open>Including the header\<close>





section \<open>The prototypes\<close>

text \<open>
  Claim C1. The header declares exactly five function prototypes: every prototype of
  the header is one of \<open>generate_population\<close>, \<open>update_prob_vector\<close>, \<open>findBest\<close>,
  \<open>findWorst\<close> and \<open>mutate\<close>, and each of these five names is declared exactly once.
\<close>

theorem five_prototypes_each_once:
  "length (prototypes helper_pbil_h) = 5
   \<and> map fname (prototypes helper_pbil_h) =
       [''generate_population'', ''update_prob_vector'', ''findBest'', ''findWorst'', ''mutate'']
   \<and> distinct (map fname (prototypes helper_pbil_h))"
  by (simp add: prototypes_helper_pbil_h prototype_defs)

section \<open>The types at the interface\<close>

text \<open>
  Claim C2 says that the population is typed \<^verbatim>\<open>int**\<close>, the probability vector
  \<^verbatim>\<open>double*\<close> and the problem handle \<^verbatim>\<open>problem*\<close>, and that no other entity type
  appears at the interface. The last part fails: the individuals \<open>best_vector\<close> and
  \<open>worst_vector\<close> of \<open>update_prob_vector\<close>, and the results of \<open>findBest\<close> and
  \<open>findWorst\<close>, have the type \<^verbatim>\<open>int*\<close>, which is none of the three.
\<close>

theorem individual_type_counterexample:
  "param_type update_prob_vector ''best_vector'' = Some (TPtr TInt)
   \<and> ret findBest = TPtr TInt
   \<and> TPtr TInt \<in> set (interface_types helper_pbil_h)
   \<and> \<not> set (interface_types helper_pbil_h)
        \<subseteq> {TPtr (TPtr TInt), TPtr TDouble, TPtr (TNamed ''problem'')}"
  by (simp add: param_type_def interface_types_helper_pbil_h types_of_def prototype_defs)

text \<open>
  Claim C2, amended. In every declared signature the population (each parameter
  \<open>current_population\<close>, and the result of \<open>generate_population\<close>) has the type
  \<^verbatim>\<open>int**\<close>, the probability vector (each parameter \<open>prob_vector\<close>, and the results of
  \<open>update_prob_vector\<close> and \<open>mutate\<close>) the type \<^verbatim>\<open>double*\<close>, and the problem handle
  \<open>prob\<close> the type \<^verbatim>\<open>problem*\<close>; no parameter of another name has one of these types.
  The interface has one more entity type, the individual \<^verbatim>\<open>int*\<close> (\<open>best_vector\<close>,
  \<open>worst_vector\<close>, and the results of \<open>findBest\<close> and \<open>findWorst\<close>), and besides these
  four only the scalars \<^verbatim>\<open>int\<close> and \<^verbatim>\<open>double\<close>.
\<close>

theorem interface_entity_types:
  "types_named helper_pbil_h ''current_population'' =
     [TPtr (TPtr TInt), TPtr (TPtr TInt), TPtr (TPtr TInt)]
   \<and> names_typed helper_pbil_h (TPtr (TPtr TInt)) =
     [''current_population'', ''current_population'', ''current_population'']
   \<and> types_named helper_pbil_h ''prob_vector'' = [TPtr TDouble, TPtr TDouble, TPtr TDouble]
   \<and> names_typed helper_pbil_h (TPtr TDouble) =
     [''prob_vector'', ''prob_vector'', ''prob_vector'']
   \<and> types_named helper_pbil_h ''prob'' = [TPtr (TNamed ''problem''), TPtr (TNamed ''problem'')]
   \<and> names_typed helper_pbil_h (TPtr (TNamed ''problem'')) = [''prob'', ''prob'']
   \<and> names_typed helper_pbil_h (TPtr TInt) = [''best_vector'', ''worst_vector'']
   \<and> map ret (prototypes helper_pbil_h) =
     [TPtr (TPtr TInt), TPtr TDouble, TPtr TInt, TPtr TInt, TPtr TDouble]
   \<and> set (interface_types helper_pbil_h) =
     {TPtr (TPtr TInt), TPtr TDouble, TPtr (TNamed ''problem''), TPtr TInt, TInt, TDouble}"
  by (simp add: types_named_def names_typed_def all_params_helper_pbil_h
      interface_types_helper_pbil_h types_of_def prototypes_helper_pbil_h prototype_defs
      insert_commute)

text \<open>
  Claim C3. \<open>update_prob_vector\<close> takes a best individual vector and a worst
  individual vector (both \<^verbatim>\<open>int*\<close>) and two rate parameters of different names,
  \<open>lr\<close> and \<open>negative_lr\<close> (both \<^verbatim>\<open>double\<close>), and returns a probability vector
  (\<^verbatim>\<open>double*\<close>). Both individuals being inputs, its result may depend on both.
\<close>

theorem update_prob_vector_signature:
  "declared helper_pbil_h ''update_prob_vector'' = [update_prob_vector]
   \<and> param_type update_prob_vector ''best_vector'' = Some (TPtr TInt)
   \<and> param_type update_prob_vector ''worst_vector'' = Some (TPtr TInt)
   \<and> param_type update_prob_vector ''lr'' = Some TDouble
   \<and> param_type update_prob_vector ''negative_lr'' = Some TDouble
   \<and> distinct (map pname (params update_prob_vector))
   \<and> ret update_prob_vector = TPtr TDouble"
  by (simp add: declared_def param_type_def prototypes_helper_pbil_h prototype_defs)

section \<open>Declarations only\<close>

text \<open>
  Claim C4. The repository is declaration-only. Its one source file has no item that
  defines a function (a signature with a body) or a type, so it holds neither an
  implementation nor a data structure nor a driver; its text has no brace, which a
  function body and a structure definition both need.
\<close>

theorem declaration_only:
  "map fst repository = [''c_src/helper_pbil.h'']
   \<and> concat (map (\<lambda>(path, items). filter is_definition items) repository) = []
   \<and> length (prototypes helper_pbil_h) = 5
   \<and> CHR ''{'' \<notin> set helper_pbil_h_text
   \<and> CHR ''}'' \<notin> set helper_pbil_h_text"
  by (simp add: repository_def no_definition_in_helper_pbil_h prototypes_helper_pbil_h
      no_brace_in_helper_pbil_h_text)

text \<open>
  Claim C5. The type \<^verbatim>\<open>problem\<close> is referenced by \<open>findBest\<close> and \<open>findWorst\<close>, as the
  type \<^verbatim>\<open>problem*\<close> of their parameter \<open>prob\<close>, and by no other prototype. No item of
  the header defines it. The header includes \<^verbatim>\<open>datatypes.h\<close> and nothing else, and
  the repository has no file but the header, so \<^verbatim>\<open>datatypes.h\<close> is absent.
\<close>

theorem problem_referenced_not_defined:
  "map fname (filter (uses_type ''problem'') (prototypes helper_pbil_h)) =
     [''findBest'', ''findWorst'']
   \<and> param_type findBest ''prob'' = Some (TPtr (TNamed ''problem''))
   \<and> param_type findWorst ''prob'' = Some (TPtr (TNamed ''problem''))
   \<and> filter (defines_type ''problem'') helper_pbil_h = []
   \<and> included_files helper_pbil_h = [''datatypes.h'']
   \<and> map fst repository = [''c_src/helper_pbil.h'']"
  by (simp add: uses_type_def types_of_def param_type_def prototypes_helper_pbil_h
      prototype_defs repository_def) (simp add: helper_pbil_h_def)

section \<open>Error reporting\<close>

text \<open>
  Claim C6. No error-reporting convention is declared. Every return type is one of the
  payload types \<^verbatim>\<open>int**\<close>, \<^verbatim>\<open>double*\<close> and \<^verbatim>\<open>int*\<close>: no function returns an integer
  code. The only named type of the interface is \<^verbatim>\<open>problem\<close>: there is no error type.
  The pointer parameters are the population, the probability vector, the two
  individuals and the problem handle: there is no out-parameter for a failure.
\<close>

theorem no_error_convention:
  "map ret (prototypes helper_pbil_h) =
     [TPtr (TPtr TInt), TPtr TDouble, TPtr TInt, TPtr TInt, TPtr TDouble]
   \<and> set (map ret (prototypes helper_pbil_h)) = {TPtr (TPtr TInt), TPtr TDouble, TPtr TInt}
   \<and> TInt \<notin> set (map ret (prototypes helper_pbil_h))
   \<and> set (concat (map named_types (interface_types helper_pbil_h))) = {''problem''}
   \<and> set (map pname (filter (\<lambda>q. is_pointer (ptype q)) (all_params helper_pbil_h))) =
     {''current_population'', ''prob_vector'', ''best_vector'', ''worst_vector'', ''prob''}"
  by (simp add: prototypes_helper_pbil_h interface_types_helper_pbil_h
      all_params_helper_pbil_h types_of_def prototype_defs insert_commute)

section \<open>The size of the file\<close>

text \<open>
  Claim C7. The file is 22 lines long: it holds 22 line feeds, hence 22 lines that a
  line feed ends, the first \<^verbatim>\<open>#ifndef HELPER_PBIL_H\<close> and the last the blank line after
  the prototype of \<open>mutate\<close>. (The closing \<^verbatim>\<open>#endif\<close> follows the last line feed and
  has none of its own.) The file contains declarations only: none of its items defines
  a function or a type.
\<close>

theorem twenty_two_lines_declarations_only:
  "length (terminated_lines helper_pbil_h_text) = 22
   \<and> count_list helper_pbil_h_text line_feed = 22
   \<and> hd (terminated_lines helper_pbil_h_text) = ''#ifndef HELPER_PBIL_H''
   \<and> last (terminated_lines helper_pbil_h_text) = []
   \<and> filter is_definition helper_pbil_h = []"
  by (simp add: terminated_lines_helper_pbil_h_text feeds_helper_pbil_h_text
      no_definition_in_helper_pbil_h)
    (simp add: helper_pbil_h_lines_def)

section \<open>Shapes of single signatures\<close>

text \<open>
  Claim C8. \<open>findBest\<close> and \<open>findWorst\<close> are asymmetric: \<open>findWorst\<close> takes the
  \<^verbatim>\<open>int\<close> parameter \<open>max_fitness\<close>, which \<open>findBest\<close> does not take; apart from it
  both take the same parameters in the same order (\<open>current_population\<close>, \<open>pop_size\<close>,
  \<open>length\<close> and the \<^verbatim>\<open>problem*\<close>), and both return an individual (\<^verbatim>\<open>int*\<close>).
\<close>

theorem findWorst_takes_max_fitness:
  "declared helper_pbil_h ''findBest'' = [findBest]
   \<and> declared helper_pbil_h ''findWorst'' = [findWorst]
   \<and> params findBest =
       [Param (TPtr (TPtr TInt)) ''current_population'', Param TInt ''pop_size'',
        Param TInt ''length'', Param (TPtr (TNamed ''problem'')) ''prob'']
   \<and> params findWorst =
       take 3 (params findBest) @ [Param TInt ''max_fitness''] @ drop 3 (params findBest)
   \<and> filter (\<lambda>q. pname q \<noteq> ''max_fitness'') (params findWorst) = params findBest
   \<and> param_type findWorst ''max_fitness'' = Some TInt
   \<and> param_type findBest ''max_fitness'' = None
   \<and> ret findBest = TPtr TInt
   \<and> ret findWorst = TPtr TInt"
  by (simp add: declared_def param_type_def prototypes_helper_pbil_h prototype_defs)

text \<open>
  Claim C9. \<open>mutate\<close> takes the probability vector, a mutation probability and a
  mutation shift, and nothing else. It has no parameter \<open>length\<close>, which
  \<open>generate_population\<close> and \<open>update_prob_vector\<close> both have, and no integer parameter
  under any name: no parameter of \<open>mutate\<close> tells how long the probability vector is.
\<close>

theorem mutate_takes_no_length:
  "declared helper_pbil_h ''mutate'' = [mutate]
   \<and> params mutate =
       [Param (TPtr TDouble) ''prob_vector'', Param TDouble ''mut_probability'',
        Param TDouble ''mut_shift'']
   \<and> param_type mutate ''length'' = None
   \<and> TInt \<notin> set (map ptype (params mutate))
   \<and> param_type generate_population ''length'' = Some TInt
   \<and> param_type update_prob_vector ''length'' = Some TInt"
  by (simp add: declared_def param_type_def prototypes_helper_pbil_h prototype_defs)

section \<open>The include guard\<close>




end
